theory Spec2Isabelle
  imports Complex_Main
begin

section \<open>Values, errors and the outside world\<close>

text \<open>
  Values decoded from JSON, as Python's \<open>json\<close> module and \<open>response.json()\<close> hand
  them to the program: \<open>None\<close>, \<open>bool\<close>, \<open>int\<close>, \<open>str\<close>, \<open>list\<close> and \<open>dict\<close>.
  A \<open>dict\<close> is an association list in insertion order. Fractional numbers are left
  out: the program reads no field that the provider serves as one.
\<close>

datatype json =
    JNull
  | JBool bool
  | JInt int
  | JStr string
  | JArr "json list"
  | JObj "(string \<times> json) list"

text \<open>
  Exceptions as values. \<open>Unmodelled\<close> marks an input on which the outcome is decided by
  library behaviour that this development does not describe (pydantic's lax coercions,
  \<open>int()\<close> applied to a string, a call of an application function that is not a tool);
  no theorem below asserts what the program does there.
\<close>

datatype error =
    TypeError
  | AttributeError
  | JSONDecodeError
  | ModelInterfaceError
  | Unmodelled

text \<open>
  One HTTP GET of the shared session either raises a \<open>requests.RequestException\<close>
  (connection error, timeout, the \<open>HTTPError\<close> that \<open>raise_for_status\<close> raises for a
  non-2xx status, or the decoding error of \<open>response.json()\<close>, which \<open>requests\<close>
  derives from \<open>RequestException\<close>), of which only \<open>str(error)\<close> is observed, or
  yields a response whose body decodes as JSON.
\<close>

datatype http_outcome =
    RequestException string
  | Response json

record request =
  url :: string
  params :: "(string \<times> json) list"

text \<open>
  Static lookup tables of the module \<open>constants\<close>, which the program imports and only
  reads; they are parameters of the model.
\<close>

record constants =
  PLATFORM_SLUG_TO_ID :: "(string \<times> int) list"
  PARENT_PLATFORM_SLUG_TO_ID :: "(string \<times> int) list"
  STORE_SLUG_TO_ID :: "(string \<times> int) list"
  DEVELOPER_SLUGS :: "string list"
  PUBLISHER_SLUGS :: "string list"
  GENRE_SLUGS :: "string list"
  TAG_SLUGS :: "string list"
  ORDERINGS :: "string list"

text \<open>
  The surroundings of one run. \<open>outcomes i\<close> is what the provider answers to the
  \<open>i\<close>-th GET of the run and \<open>random i\<close> the \<open>i\<close>-th value drawn from
  \<open>random.random()\<close>, which lies in \<open>[0, 1)\<close>; \<open>rawg_api_key\<close> is \<open>os.getenv("RAWG_API_KEY")\<close>, \<open>today\<close>
  the text of \<open>datetime.now().strftime('%Y-%m-%d')\<close>, \<open>loads\<close> and \<open>dumps\<close> stand for
  \<open>json.loads\<close> (\<open>None\<close> when it raises) and \<open>json.dumps\<close>, \<open>exc_text\<close> for \<open>str\<close> of
  a caught exception, \<open>SYSTEM_PROMPT\<close> is the text of \<open>prompts.SYSTEM_PROMPT\<close>, which
  the program only passes on, and \<open>llm\<close> stands for the chat-completion call on a
  conversation (\<open>None\<close> when the call itself raises).
\<close>

record tool_call =
  tc_id :: string
  fn_name :: string
  fn_arguments :: string

record message =
  content :: "string option"
  tool_calls :: "tool_call list option"

record response =
  finish_reason :: string
  message :: message

datatype turn =
    Dict string string
  | AssistantMessage message
  | ToolDict string string

record env =
  outcomes :: "nat \<Rightarrow> http_outcome"
  random :: "nat \<Rightarrow> real"
  rawg_api_key :: "string option"
  today :: string
  tables :: constants
  loads :: "string \<Rightarrow> json option"
  dumps :: "json \<Rightarrow> string"
  exc_text :: "error \<Rightarrow> string"
  SYSTEM_PROMPT :: string
  llm :: "turn list \<Rightarrow> response option"

text \<open>
  What a run has done so far, in order: the GETs it issued and the delays it slept.
\<close>

datatype event = Get request | Sleep real

type_synonym world = "event list"

fun gets :: "world \<Rightarrow> request list" where
  "gets [] = []"
| "gets (Get r # w) = r # gets w"
| "gets (Sleep d # w) = gets w"

fun slept :: "world \<Rightarrow> real list" where
  "slept [] = []"
| "slept (Get r # w) = slept w"
| "slept (Sleep d # w) = d # slept w"

section \<open>Python primitives\<close>

fun truthy :: "json \<Rightarrow> bool" where
  "truthy JNull = False"
| "truthy (JBool b) = b"
| "truthy (JInt n) = (n \<noteq> 0)"
| "truthy (JStr s) = (s \<noteq> [])"
| "truthy (JArr xs) = (xs \<noteq> [])"
| "truthy (JObj kvs) = (kvs \<noteq> [])"

definition py_or :: "json \<Rightarrow> json \<Rightarrow> json" where
  "py_or a b = (if truthy a then a else b)"

text \<open>\<open>d.get(key, default)\<close> on a \<open>dict\<close>.\<close>

definition dict_get :: "(string \<times> json) list \<Rightarrow> string \<Rightarrow> json \<Rightarrow> json" where
  "dict_get d k dflt = (case map_of d k of None \<Rightarrow> dflt | Some v \<Rightarrow> v)"

text \<open>\<open>v.get(key, default)\<close> on any decoded value: only a \<open>dict\<close> has the attribute.\<close>

fun py_get :: "json \<Rightarrow> string \<Rightarrow> json \<Rightarrow> error + json" where
  "py_get (JObj d) k dflt = Inr (dict_get d k dflt)"
| "py_get _ k dflt = Inl AttributeError"

text \<open>
  Iteration over a decoded value: a list yields its elements, a dict its keys, a string
  its characters; the rest is not iterable.
\<close>

fun py_iter :: "json \<Rightarrow> error + json list" where
  "py_iter (JArr xs) = Inr xs"
| "py_iter (JObj d) = Inr (map (\<lambda>kv. JStr (fst kv)) d)"
| "py_iter (JStr s) = Inr (map (\<lambda>c. JStr [c]) s)"
| "py_iter _ = Inl TypeError"

fun digits :: "nat \<Rightarrow> string" where
  "digits n = (if n < 10 then [''0123456789'' ! n]
               else digits (n div 10) @ [''0123456789'' ! (n mod 10)])"

text \<open>\<open>str(n)\<close> of an \<open>int\<close>.\<close>

definition str_int :: "int \<Rightarrow> string" where
  "str_int n = (if n < 0 then CHR ''-'' # digits (nat (- n)) else digits (nat n))"

text \<open>\<open>sep.join(xs)\<close>.\<close>

fun join :: "string \<Rightarrow> string list \<Rightarrow> string" where
  "join sep [] = []"
| "join sep [x] = x"
| "join sep (x # y # ys) = x @ sep @ join sep (y # ys)"

text \<open>
  \<open>random.uniform(a, b)\<close>, which the standard library computes as
  \<open>a + (b - a) * random()\<close>; \<open>i\<close> numbers the draw within the run.
\<close>

definition uniform :: "env \<Rightarrow> nat \<Rightarrow> real \<Rightarrow> real \<Rightarrow> real" where
  "uniform e i a b = a + (b - a) * random e i"

section \<open>Catalogue client (database.py)\<close>

definition RAWG_GAMES_API_BASE_URL :: string where
  "RAWG_GAMES_API_BASE_URL = ''https://api.rawg.io/api/games''"

text \<open>\<open>str(last_error)\<close>, where \<open>last_error\<close> is still \<open>None\<close> if no attempt was made.\<close>

fun str_last_error :: "string option \<Rightarrow> string" where
  "str_last_error None = ''None''"
| "str_last_error (Some m) = m"

text \<open>
  The body of \<open>for attempt in range(max_retries)\<close>, over the attempts still to run.
  Every attempt issues one GET. A response ends the call at once; an exception is kept
  as \<open>last_error\<close> and, unless the attempt is the last one, followed by a sleep of
  \<open>base_delay * (2 ** attempt) + random.uniform(0, 0.1)\<close>.
\<close>

fun retry_attempts ::
  "env \<Rightarrow> request \<Rightarrow> int \<Rightarrow> real \<Rightarrow> nat list \<Rightarrow> string option \<Rightarrow> world
     \<Rightarrow> (string \<times> json) list \<times> world" where
  "retry_attempts e rq max_retries base_delay [] last_error w =
     ([(''success'', JBool False), (''error'', JStr (str_last_error last_error))], w)"
| "retry_attempts e rq max_retries base_delay (attempt # rest) last_error w =
     (case outcomes e (length (gets w)) of
        Response body \<Rightarrow>
          ([(''success'', JBool True), (''results'', body)], w @ [Get rq])
      | RequestException m \<Rightarrow>
          (if int attempt < max_retries - 1
           then retry_attempts e rq max_retries base_delay rest (Some m)
                  (w @ [Get rq,
                        Sleep (base_delay * 2 ^ attempt
                                 + uniform e (length (slept w)) 0 (1 / 10))])
           else retry_attempts e rq max_retries base_delay rest (Some m)
                  (w @ [Get rq])))"

definition make_request_with_retry ::
  "env \<Rightarrow> string \<Rightarrow> (string \<times> json) list \<Rightarrow> int \<Rightarrow> real \<Rightarrow> world
     \<Rightarrow> (string \<times> json) list \<times> world" where
  "make_request_with_retry e u ps max_retries base_delay w =
     retry_attempts e \<lparr>url = u, params = ps\<rparr> max_retries base_delay
       [0..<nat max_retries] None w"

text \<open>The defaults of the signature: \<open>max_retries = 3\<close>, \<open>base_delay = 1.0\<close>.\<close>

definition make_request :: "env \<Rightarrow> string \<Rightarrow> (string \<times> json) list \<Rightarrow> world
     \<Rightarrow> (string \<times> json) list \<times> world" where
  "make_request e u ps w = make_request_with_retry e u ps 3 1 w"


text \<open>How an f-string renders a decoded value; the \<open>repr\<close> of a list or dict is not
  described here.\<close>

fun py_format :: "json \<Rightarrow> error + string" where
  "py_format (JStr s) = Inr s"
| "py_format (JInt n) = Inr (str_int n)"
| "py_format (JBool b) = Inr (if b then ''True'' else ''False'')"
| "py_format JNull = Inr ''None''"
| "py_format _ = Inl Unmodelled"

text \<open>Sequencing of steps that may raise: the first exception ends the computation.\<close>

fun bind_err :: "error + 'a \<Rightarrow> ('a \<Rightarrow> error + 'b) \<Rightarrow> error + 'b" where
  "bind_err (Inl x) f = Inl x"
| "bind_err (Inr v) f = f v"

definition key_param :: "env \<Rightarrow> string \<times> json" where
  "key_param e = (''key'', case rawg_api_key e of None \<Rightarrow> JNull | Some k \<Rightarrow> JStr k)"

definition get_game_details :: "env \<Rightarrow> json \<Rightarrow> world \<Rightarrow> error + (string \<times> json) list \<times> world" where
  "get_game_details e game_id w =
     bind_err (py_format game_id) (\<lambda>g.
       Inr (make_request e (RAWG_GAMES_API_BASE_URL @ ''/'' @ g)
              [key_param e, (''exclude_additions'', JBool True)] w))"

definition search_game_by_name :: "env \<Rightarrow> json \<Rightarrow> world \<Rightarrow> (string \<times> json) list \<times> world" where
  "search_game_by_name e game_name w =
     make_request e RAWG_GAMES_API_BASE_URL
       [key_param e, (''search'', game_name), (''exclude_additions'', JBool True)] w"

text \<open>\<open>",".join(xs)\<close> on decoded values: every item has to be a string.\<close>

fun str_items :: "json list \<Rightarrow> error + string list" where
  "str_items [] = Inr []"
| "str_items (JStr s # r) = bind_err (str_items r) (\<lambda>ss. Inr (s # ss))"
| "str_items (v # r) = Inl TypeError"

definition joined_ids :: "string \<Rightarrow> int list \<Rightarrow> (string \<times> json) list" where
  "joined_ids k ids = (if ids \<noteq> [] then [(k, JStr (join '','' (map str_int ids)))] else [])"

definition joined_names :: "string \<Rightarrow> json list \<Rightarrow> error + (string \<times> json) list" where
  "joined_names k names =
     (if names \<noteq> []
      then bind_err (str_items names) (\<lambda>ss. Inr [(k, JStr (join '','' ss))])
      else Inr [])"

definition unless_none :: "string \<Rightarrow> json \<Rightarrow> (string \<times> json) list" where
  "unless_none k v = (if v \<noteq> JNull then [(k, v)] else [])"

text \<open>
  The multi-filter search. The entries of \<open>search_params\<close> are added in the order of the
  source; the two range entries are f-strings, the list entries are comma-joined. The
  three id lists are always lists here (the one caller passes the results of the slug
  conversions), so their \<open>None\<close> default is left out.
\<close>

definition find_multiple_games_by_conditions ::
  "env \<Rightarrow> json \<Rightarrow> json \<Rightarrow> json \<Rightarrow> json \<Rightarrow> json \<Rightarrow> json \<Rightarrow> int list \<Rightarrow> int list \<Rightarrow> int list
     \<Rightarrow> json list \<Rightarrow> json list \<Rightarrow> json list \<Rightarrow> json list \<Rightarrow> json \<Rightarrow> world
     \<Rightarrow> error + (string \<times> json) list \<times> world" where
  "find_multiple_games_by_conditions e release_date_lower_bound release_date_upper_bound
     metacritic_lower_bound metacritic_upper_bound page_size title parent_platform_ids
     platform_ids store_ids developers publishers genres tags ordering' w =
     bind_err (py_format release_date_lower_bound) (\<lambda>dlo.
     bind_err (py_format release_date_upper_bound) (\<lambda>dhi.
     bind_err (py_format metacritic_lower_bound) (\<lambda>mlo.
     bind_err (py_format metacritic_upper_bound) (\<lambda>mhi.
     bind_err (joined_names ''developers'' developers) (\<lambda>devs.
     bind_err (joined_names ''publishers'' publishers) (\<lambda>pubs.
     bind_err (joined_names ''genres'' genres) (\<lambda>gens.
     bind_err (joined_names ''tags'' tags) (\<lambda>tgs.
       Inr (make_request e RAWG_GAMES_API_BASE_URL
              ([key_param e,
                (''page_size'', page_size),
                (''dates'', JStr (dlo @ '','' @ dhi)),
                (''metacritic'', JStr (mlo @ '','' @ mhi)),
                (''exclude_additions'', JBool True)]
               @ unless_none ''search'' title
               @ joined_ids ''parent_platforms'' parent_platform_ids
               @ joined_ids ''platforms'' platform_ids
               @ joined_ids ''stores'' store_ids
               @ devs @ pubs @ gens @ tgs
               @ unless_none ''ordering'' ordering') w)))))))))"

section \<open>Lookup normalizer (classes.py)\<close>

text \<open>
  Validation of a pydantic field. A value of the declared type is taken as it is; what
  pydantic does with any other value (coercion or \<open>ValidationError\<close>) is not described.
\<close>

fun as_str :: "json \<Rightarrow> error + string" where
  "as_str (JStr s) = Inr s"
| "as_str _ = Inl Unmodelled"

fun as_int :: "json \<Rightarrow> error + int" where
  "as_int (JInt n) = Inr n"
| "as_int _ = Inl Unmodelled"

fun as_opt_int :: "json \<Rightarrow> error + int option" where
  "as_opt_int JNull = Inr None"
| "as_opt_int (JInt n) = Inr (Some n)"
| "as_opt_int _ = Inl Unmodelled"

fun as_opt_str :: "json \<Rightarrow> error + string option" where
  "as_opt_str JNull = Inr None"
| "as_opt_str (JStr s) = Inr (Some s)"
| "as_opt_str _ = Inl Unmodelled"

fun as_str_list :: "json list \<Rightarrow> error + string list" where
  "as_str_list [] = Inr []"
| "as_str_list (v # r) =
     bind_err (as_str v) (\<lambda>s. bind_err (as_str_list r) (\<lambda>ss. Inr (s # ss)))"

text \<open>\<open>int(v)\<close>: a number is converted, a list, dict or \<open>None\<close> is a \<open>TypeError\<close>; the
  parsing of a string is not described.\<close>

fun py_int :: "json \<Rightarrow> error + int" where
  "py_int (JInt n) = Inr n"
| "py_int (JBool b) = Inr (if b then 1 else 0)"
| "py_int (JStr s) = Inl Unmodelled"
| "py_int _ = Inl TypeError"

record GameDescriptionResponse =
  d_name :: string
  d_game_id :: int
  description :: string

definition create_description_response_from_json :: "json \<Rightarrow> error + GameDescriptionResponse" where
  "create_description_response_from_json payload =
     bind_err (py_get payload ''name'' JNull) (\<lambda>n.
     bind_err (py_get payload ''id'' JNull) (\<lambda>i.
     bind_err (py_get payload ''description'' JNull) (\<lambda>d.
     bind_err (as_str (py_or n (JStr []))) (\<lambda>n'.
     bind_err (as_int (py_or i (JInt 0))) (\<lambda>i'.
     bind_err (as_str (py_or d (JStr []))) (\<lambda>d'.
       Inr \<lparr>d_name = n', d_game_id = i', description = d'\<rparr>))))))"

definition description_dump :: "GameDescriptionResponse \<Rightarrow> json" where
  "description_dump g =
     JObj [(''name'', JStr (d_name g)), (''game_id'', JInt (d_game_id g)),
           (''description'', JStr (description g))]"

record GameDetailsResponse =
  name :: string
  game_id :: int
  average_playtime :: int
  platforms :: "string list"
  stores :: "string list"
  genres :: "string list"
  released :: string
  metacritic_score :: "int option"
  esrb_rating :: "string option"

text \<open>
  The comprehension over platform or store entries,
  \<open>[x.get(key, {}).get("name") for x in entries if x.get(key, {}).get("name")]\<close>:
  an entry that is no dict, or whose wrapper under \<open>key\<close> is no dict, raises.
\<close>

fun wrapped_names :: "string \<Rightarrow> json list \<Rightarrow> error + json list" where
  "wrapped_names key [] = Inr []"
| "wrapped_names key (entry # rest) =
     (case py_get entry key (JObj []) of
        Inl x \<Rightarrow> Inl x
      | Inr inner \<Rightarrow>
          (case py_get inner ''name'' JNull of
             Inl x \<Rightarrow> Inl x
           | Inr n \<Rightarrow>
               (case wrapped_names key rest of
                  Inl x \<Rightarrow> Inl x
                | Inr ns \<Rightarrow> Inr (if truthy n then n # ns else ns))))"

text \<open>The comprehension over genre entries,
  \<open>[x.get("name") for x in entries if x.get("name")]\<close>.\<close>

fun plain_names :: "json list \<Rightarrow> error + json list" where
  "plain_names [] = Inr []"
| "plain_names (entry # rest) =
     (case py_get entry ''name'' JNull of
        Inl x \<Rightarrow> Inl x
      | Inr n \<Rightarrow>
          (case plain_names rest of
             Inl x \<Rightarrow> Inl x
           | Inr ns \<Rightarrow> Inr (if truthy n then n # ns else ns)))"

text \<open>\<open>esrb_rating_data.get("name_en")\<close> if the rating is a dict, else \<open>None\<close>.\<close>

fun esrb_rating_name :: "json \<Rightarrow> json" where
  "esrb_rating_name (JObj d) = dict_get d ''name_en'' JNull"
| "esrb_rating_name _ = JNull"

text \<open>One round of the loop over the search results: the game object built from one
  raw record.\<close>

definition create_game_object :: "json \<Rightarrow> error + GameDetailsResponse" where
  "create_game_object result =
     bind_err (py_get result ''platforms'' JNull) (\<lambda>p.
     bind_err (py_iter (py_or p (JArr []))) (\<lambda>platform_entries.
     bind_err (wrapped_names ''platform'' platform_entries) (\<lambda>platform_names.
     bind_err (py_get result ''stores'' JNull) (\<lambda>s.
     bind_err (py_iter (py_or s (JArr []))) (\<lambda>store_entries.
     bind_err (wrapped_names ''store'' store_entries) (\<lambda>store_names.
     bind_err (py_get result ''genres'' JNull) (\<lambda>g.
     bind_err (py_iter (py_or g (JArr []))) (\<lambda>genre_entries.
     bind_err (plain_names genre_entries) (\<lambda>genre_names.
     bind_err (py_get result ''esrb_rating'' JNull) (\<lambda>esrb_rating_data.
     bind_err (py_get result ''name'' JNull) (\<lambda>n.
     bind_err (py_get result ''id'' JNull) (\<lambda>i.
     bind_err (py_get result ''playtime'' JNull) (\<lambda>pt.
     bind_err (py_int (py_or pt (JInt 0))) (\<lambda>playtime.
     bind_err (py_get result ''released'' JNull) (\<lambda>r.
     bind_err (py_get result ''metacritic'' JNull) (\<lambda>m.
     bind_err (as_str (py_or n (JStr []))) (\<lambda>n'.
     bind_err (as_int (py_or i (JInt 0))) (\<lambda>i'.
     bind_err (as_str_list platform_names) (\<lambda>platform_names'.
     bind_err (as_str_list store_names) (\<lambda>store_names'.
     bind_err (as_str_list genre_names) (\<lambda>genre_names'.
     bind_err (as_str (py_or r (JStr []))) (\<lambda>r'.
     bind_err (as_opt_int m) (\<lambda>m'.
     bind_err (as_opt_str (esrb_rating_name esrb_rating_data)) (\<lambda>esrb'.
       Inr \<lparr>name = n', game_id = i', average_playtime = playtime,
            platforms = platform_names', stores = store_names', genres = genre_names',
            released = r', metacritic_score = m',
            esrb_rating = esrb'\<rparr>))))))))))))))))))))))))"

fun create_game_objects :: "json list \<Rightarrow> error + GameDetailsResponse list" where
  "create_game_objects [] = Inr []"
| "create_game_objects (result # rest) =
     (case create_game_object result of
        Inl x \<Rightarrow> Inl x
      | Inr game_details \<Rightarrow>
          (case create_game_objects rest of
             Inl x \<Rightarrow> Inl x
           | Inr parsed_games \<Rightarrow> Inr (game_details # parsed_games)))"

definition create_game_objects_from_search_results :: "json \<Rightarrow> error + GameDetailsResponse list" where
  "create_game_objects_from_search_results search_results =
     (if \<not> truthy search_results then Inr []
      else bind_err (py_iter search_results) create_game_objects)"

definition opt_json :: "('a \<Rightarrow> json) \<Rightarrow> 'a option \<Rightarrow> json" where
  "opt_json f v = (case v of None \<Rightarrow> JNull | Some x \<Rightarrow> f x)"

definition model_dump :: "GameDetailsResponse \<Rightarrow> json" where
  "model_dump g =
     JObj [(''name'', JStr (name g)), (''game_id'', JInt (game_id g)),
           (''average_playtime'', JInt (average_playtime g)),
           (''platforms'', JArr (map JStr (platforms g))),
           (''stores'', JArr (map JStr (stores g))),
           (''genres'', JArr (map JStr (genres g))),
           (''released'', JStr (released g)),
           (''metacritic_score'', opt_json JInt (metacritic_score g)),
           (''esrb_rating'', opt_json JStr (esrb_rating g))]"

section \<open>Tool handlers (tools.py)\<close>

text \<open>
  The three slug conversions run the same loop over their own table:
  \<open>table.get(slug)\<close> is appended unless it is \<open>None\<close>. A slug that is a list or a dict
  cannot be hashed, and a slug that is no string is not a key of a table.
\<close>

fun slug_ids :: "(string \<times> int) list \<Rightarrow> json list \<Rightarrow> error + int list" where
  "slug_ids table [] = Inr []"
| "slug_ids table (JArr xs # rest) = Inl TypeError"
| "slug_ids table (JObj d # rest) = Inl TypeError"
| "slug_ids table (JStr slug # rest) =
     bind_err (slug_ids table rest) (\<lambda>ids.
       Inr (case map_of table slug of None \<Rightarrow> ids | Some i \<Rightarrow> i # ids))"
| "slug_ids table (v # rest) = slug_ids table rest"

definition get_platform_ids :: "env \<Rightarrow> json list \<Rightarrow> error + int list" where
  "get_platform_ids e slugs = slug_ids (PLATFORM_SLUG_TO_ID (tables e)) slugs"

definition get_parent_platform_ids :: "env \<Rightarrow> json list \<Rightarrow> error + int list" where
  "get_parent_platform_ids e slugs = slug_ids (PARENT_PLATFORM_SLUG_TO_ID (tables e)) slugs"

definition get_store_ids :: "env \<Rightarrow> json list \<Rightarrow> error + int list" where
  "get_store_ids e slugs = slug_ids (STORE_SLUG_TO_ID (tables e)) slugs"

fun normalize_list_param :: "json \<Rightarrow> json list" where
  "normalize_list_param JNull = []"
| "normalize_list_param (JArr xs) = xs"
| "normalize_list_param param = [param]"

definition get_current_date :: "env \<Rightarrow> json" where
  "get_current_date e =
     JObj [(''success'', JBool True),
           (''results'', JStr (''Today'' @ [CHR 0x27] @ ''s date is '' @ today e))]"

text \<open>The failure envelope both search handlers and the description handler build from
  the client's answer: \<open>f"Database error: {error_message}"\<close>.\<close>

definition database_error :: "(string \<times> json) list \<Rightarrow> string \<Rightarrow> error + json" where
  "database_error db_response dflt =
     bind_err (py_format (dict_get db_response ''error'' (JStr dflt))) (\<lambda>error_message.
       Inr (JObj [(''success'', JBool False),
                  (''failure_reason'', JStr (''Database error: '' @ error_message))]))"

definition get_game_description :: "env \<Rightarrow> json \<Rightarrow> world \<Rightarrow> error + json \<times> world" where
  "get_game_description e game_id' w =
     bind_err (get_game_details e game_id' w) (\<lambda>(db_response, w').
       let rawg_payload = dict_get db_response ''results'' JNull in
       if \<not> truthy (dict_get db_response ''success'' JNull) \<or> \<not> truthy rawg_payload
       then bind_err (database_error db_response
                        ''An unknown error occurred while fetching from the database.'')
              (\<lambda>r. Inr (r, w'))
       else (case create_description_response_from_json rawg_payload of
               Inr response_object \<Rightarrow>
                 Inr (JObj [(''success'', JBool True),
                            (''results'', description_dump response_object)], w')
             | Inl Unmodelled \<Rightarrow> Inl Unmodelled
             | Inl x \<Rightarrow>
                 Inr (JObj [(''success'', JBool False),
                            (''failure_reason'', JStr (''Parsing error: '' @ exc_text e x))],
                      w')))"

definition find_game_by_name :: "env \<Rightarrow> json \<Rightarrow> world \<Rightarrow> error + json \<times> world" where
  "find_game_by_name e game_name w =
     (case search_game_by_name e game_name w of (db_response, w') \<Rightarrow>
       bind_err (py_get (dict_get db_response ''results'' (JObj [])) ''results'' JNull)
         (\<lambda>rawg_payload.
           if \<not> truthy (dict_get db_response ''success'' JNull) \<or> \<not> truthy rawg_payload
           then bind_err (database_error db_response
                            ''An unknown error occurred while fetching from the database.'')
                  (\<lambda>r. Inr (r, w'))
           else bind_err (create_game_objects_from_search_results rawg_payload)
                  (\<lambda>game_objects.
                    if game_objects = []
                    then Inr (JObj [(''success'', JBool False),
                                    (''failure_reason'',
                                     JStr ''Failed to parse database results.'')], w')
                    else Inr (JObj [(''success'', JBool True),
                                    (''results'',
                                     JArr (map model_dump (take 3 game_objects)))], w'))))"

text \<open>The keyword arguments of \<open>find_multiple_games\<close>: an absent one has its default.\<close>

definition kwarg :: "(string \<times> json) list \<Rightarrow> string \<Rightarrow> json \<Rightarrow> json" where
  "kwarg kwargs k dflt = dict_get kwargs k dflt"

definition find_multiple_games :: "env \<Rightarrow> (string \<times> json) list \<Rightarrow> world \<Rightarrow> error + json \<times> world" where
  "find_multiple_games e kwargs w =
     (let parent_platforms = normalize_list_param (kwarg kwargs ''parent_platforms'' JNull);
          platforms = normalize_list_param (kwarg kwargs ''platforms'' JNull);
          stores = normalize_list_param (kwarg kwargs ''stores'' JNull);
          developers = normalize_list_param (kwarg kwargs ''developers'' JNull);
          publishers = normalize_list_param (kwarg kwargs ''publishers'' JNull);
          genres = normalize_list_param (kwarg kwargs ''genres'' JNull);
          tags = normalize_list_param (kwarg kwargs ''tags'' JNull);
          metacritic_lower_bound = kwarg kwargs ''metacritic_lower_bound'' JNull;
          metacritic_upper_bound = kwarg kwargs ''metacritic_upper_bound'' JNull
      in
      bind_err (get_parent_platform_ids e parent_platforms) (\<lambda>parent_platform_ids.
      bind_err (get_platform_ids e platforms) (\<lambda>platform_ids.
      bind_err (get_store_ids e stores) (\<lambda>store_ids.
      bind_err (find_multiple_games_by_conditions e
                  (py_or (kwarg kwargs ''release_date_lower_bound'' JNull) (JStr ''1800-01-01''))
                  (py_or (kwarg kwargs ''release_date_upper_bound'' JNull) (JStr ''3000-01-01''))
                  (if metacritic_lower_bound \<noteq> JNull then metacritic_lower_bound else JInt 0)
                  (if metacritic_upper_bound \<noteq> JNull then metacritic_upper_bound else JInt 100)
                  (kwarg kwargs ''num_results'' (JInt 5))
                  (kwarg kwargs ''title'' JNull)
                  parent_platform_ids platform_ids store_ids
                  developers publishers genres tags
                  (kwarg kwargs ''ordering'' JNull) w) (\<lambda>(db_response, w').
      bind_err (py_get (dict_get db_response ''results'' (JObj [])) ''results'' JNull)
        (\<lambda>rawg_payload.
          if \<not> truthy (dict_get db_response ''success'' JNull) \<or> \<not> truthy rawg_payload
          then bind_err (database_error db_response ''Unknown database error.'')
                 (\<lambda>r. Inr (r, w'))
          else bind_err (create_game_objects_from_search_results rawg_payload)
                 (\<lambda>game_objects.
                   if game_objects = []
                   then Inr (JObj [(''success'', JBool False),
                                   (''failure_reason'',
                                    JStr ''Failed to parse database results.'')], w')
                   else Inr (JObj [(''success'', JBool True),
                                   (''results'', JArr (map model_dump game_objects))],
                             w'))))))))"

section \<open>Dispatch and the orchestration loop (app.py)\<close>

datatype tool = GetCurrentDate | GetGameDescription | FindGameByName | FindMultipleGames

text \<open>
  What a name is bound to in the module namespace \<open>globals()\<close> of \<open>app\<close>: a tool
  handler, an object that cannot be called (with its truth value), or something
  callable that is no tool handler, whose call is not described here.
\<close>

datatype binding = Handler tool | Object bool | NotModelled

text \<open>
  The namespace: the names \<open>app.py\<close> imports and defines, every public name of
  \<open>tools\<close> (\<open>from tools import *\<close>; \<open>tools\<close> has no \<open>__all__\<close>, so the names without a
  leading underscore), and the entries the interpreter supplies.
\<close>

definition app_globals :: "env \<Rightarrow> string \<Rightarrow> binding option" where
  "app_globals e =
     map_of
       [(''json'', Object True), (''gr'', Object True), (''openai'', Object True),
        (''SYSTEM_PROMPT'', Object (SYSTEM_PROMPT e \<noteq> [])),
        (''handle_tool_calls'', NotModelled), (''chat'', NotModelled),
        (''Any'', Object True), (''datetime'', Object True),
        (''GameDetailsResponse'', NotModelled), (''GameDescriptionResponse'', NotModelled),
        (''DEVELOPER_SLUGS'', Object (DEVELOPER_SLUGS (tables e) \<noteq> [])),
        (''GENRE_SLUGS'', Object (GENRE_SLUGS (tables e) \<noteq> [])),
        (''ORDERINGS'', Object (ORDERINGS (tables e) \<noteq> [])),
        (''PARENT_PLATFORM_SLUG_TO_ID'', Object (PARENT_PLATFORM_SLUG_TO_ID (tables e) \<noteq> [])),
        (''PLATFORM_SLUG_TO_ID'', Object (PLATFORM_SLUG_TO_ID (tables e) \<noteq> [])),
        (''PUBLISHER_SLUGS'', Object (PUBLISHER_SLUGS (tables e) \<noteq> [])),
        (''STORE_SLUG_TO_ID'', Object (STORE_SLUG_TO_ID (tables e) \<noteq> [])),
        (''TAG_SLUGS'', Object (TAG_SLUGS (tables e) \<noteq> [])),
        (''DATABASE'', Object True),
        (''get_current_date'', Handler GetCurrentDate),
        (''get_game_description'', Handler GetGameDescription),
        (''find_game_by_name'', Handler FindGameByName),
        (''find_multiple_games'', Handler FindMultipleGames),
        (''VIDEO_GAME_TOOLS'', Object True),
        (''__name__'', Object True), (''__doc__'', Object False),
        (''__file__'', Object True), (''__builtins__'', Object True),
        (''__package__'', NotModelled), (''__spec__'', NotModelled),
        (''__loader__'', NotModelled), (''__cached__'', NotModelled),
        (''__annotations__'', NotModelled)]"

definition find_multiple_games_params :: "string list" where
  "find_multiple_games_params =
     [''num_results'', ''title'', ''parent_platforms'', ''platforms'', ''stores'',
      ''developers'', ''publishers'', ''genres'', ''tags'', ''release_date_lower_bound'',
      ''release_date_upper_bound'', ''metacritic_lower_bound'', ''metacritic_upper_bound'',
      ''ordering'']"

text \<open>
  \<open>tool(**arguments)\<close> for a handler: the decoded arguments have to be a dict whose
  keys are parameters of the handler and include the required ones.
\<close>

fun call_tool :: "env \<Rightarrow> tool \<Rightarrow> json \<Rightarrow> world \<Rightarrow> error + json \<times> world" where
  "call_tool e GetCurrentDate (JObj kwargs) w =
     (if kwargs = [] then Inr (get_current_date e, w) else Inl TypeError)"
| "call_tool e GetGameDescription (JObj kwargs) w =
     (if set (map fst kwargs) = {''game_id''}
      then get_game_description e (dict_get kwargs ''game_id'' JNull) w
      else Inl TypeError)"
| "call_tool e FindGameByName (JObj kwargs) w =
     (if set (map fst kwargs) = {''game_name''}
      then find_game_by_name e (dict_get kwargs ''game_name'' JNull) w
      else Inl TypeError)"
| "call_tool e FindMultipleGames (JObj kwargs) w =
     (if set (map fst kwargs) \<subseteq> set find_multiple_games_params
      then find_multiple_games e kwargs w
      else Inl TypeError)"
| "call_tool e t arguments w = Inl TypeError"

text \<open>\<open>tool(**arguments) if tool else {}\<close> for what \<open>globals().get(tool_name)\<close> gave.\<close>

fun call_binding :: "env \<Rightarrow> binding option \<Rightarrow> json \<Rightarrow> world \<Rightarrow> error + json \<times> world" where
  "call_binding e None arguments w = Inr (JObj [], w)"
| "call_binding e (Some (Object False)) arguments w = Inr (JObj [], w)"
| "call_binding e (Some (Object True)) arguments w = Inl TypeError"
| "call_binding e (Some NotModelled) arguments w = Inl Unmodelled"
| "call_binding e (Some (Handler t)) arguments w = call_tool e t arguments w"

fun handle_calls :: "env \<Rightarrow> tool_call list \<Rightarrow> world \<Rightarrow> error + turn list \<times> world" where
  "handle_calls e [] w = Inr ([], w)"
| "handle_calls e (tc # rest) w =
     (case loads e (fn_arguments tc) of
        None \<Rightarrow> Inl JSONDecodeError
      | Some arguments \<Rightarrow>
          (case call_binding e (app_globals e (fn_name tc)) arguments w of
             Inl x \<Rightarrow> Inl x
           | Inr (result, w') \<Rightarrow>
               (case handle_calls e rest w' of
                  Inl x \<Rightarrow> Inl x
                | Inr (results, w'') \<Rightarrow>
                    Inr (ToolDict (dumps e result) (tc_id tc) # results, w''))))"

text \<open>\<open>handle_tool_calls(tool_calls)\<close>; iterating over \<open>None\<close> raises.\<close>

fun handle_tool_calls :: "env \<Rightarrow> tool_call list option \<Rightarrow> world \<Rightarrow> error + turn list \<times> world" where
  "handle_tool_calls e None w = Inl TypeError"
| "handle_tool_calls e (Some tcs) w = handle_calls e tcs w"

definition persona_reminder :: string where
  "persona_reminder = ''REMINDER: Maintain your persona. Let your gaming knowledge gush out with references, Easter eggs, deep-cut trivia, and self-aware nerd humor. Use ample asterisk actions.''"

text \<open>
  The loop \<open>while not done\<close> of \<open>chat\<close>, with a bound on the number of model calls: it
  yields \<open>None\<close> when the bound is used up before the model stops asking for tools. A
  finished run yields the returned \<open>content\<close> together with the conversation and the
  world as the run leaves them.
\<close>

fun chat_loop :: "env \<Rightarrow> nat \<Rightarrow> turn list \<Rightarrow> world
     \<Rightarrow> (error + string option \<times> turn list \<times> world) option" where
  "chat_loop e 0 messages w = None"
| "chat_loop e (Suc fuel) messages w =
     (case llm e messages of
        None \<Rightarrow> Some (Inl ModelInterfaceError)
      | Some response \<Rightarrow>
          (if finish_reason response = ''tool_calls''
           then (case handle_tool_calls e (tool_calls (message response)) w of
                   Inl x \<Rightarrow> Some (Inl x)
                 | Inr (results, w') \<Rightarrow>
                     chat_loop e fuel
                       (messages @ [AssistantMessage (message response)] @ results) w')
           else Some (Inr (content (message response), messages, w))))"

definition chat :: "env \<Rightarrow> nat \<Rightarrow> string \<Rightarrow> turn list \<Rightarrow> world
     \<Rightarrow> (error + string option \<times> turn list \<times> world) option" where
  "chat e fuel msg history w =
     chat_loop e fuel
       ([Dict ''system'' (SYSTEM_PROMPT e)] @ history @
        [Dict ''user'' (msg @ [CHR 0x0A, CHR 0x0A] @ persona_reminder)]) w"

section \<open>Arguments of the declared types\<close>










text \<open>The \<open>tool_call_id\<close> of a conversation entry that is a tool result.\<close>

fun tool_call_id :: "turn \<Rightarrow> string option" where
  "tool_call_id (ToolDict c i) = Some i"
| "tool_call_id _ = None"

text \<open>
  Whether the tool results \<open>results\<close> answer the calls requested in the model's message
  \<open>m\<close>: one result per requested call, in the order of the requests, each tagged with
  the id of its request.
\<close>

definition answers_requests :: "message \<Rightarrow> turn list \<Rightarrow> bool" where
  "answers_requests m results =
     (case tool_calls m of
        None \<Rightarrow> False
      | Some tcs \<Rightarrow> map tool_call_id results = map (\<lambda>tc. Some (tc_id tc)) tcs)"

text \<open>
  Whether a conversation that stood at \<open>messages\<close> grows by the tool rounds \<open>rounds\<close>:
  round after round, the model answers the conversation as it stands with a request for
  tool calls, and its message \<open>m\<close>, followed by the results answering it, is what the
  round appends.
\<close>

fun grown_by_rounds :: "env \<Rightarrow> turn list \<Rightarrow> (message \<times> turn list) list \<Rightarrow> bool" where
  "grown_by_rounds e messages [] = True"
| "grown_by_rounds e messages ((m, results) # rest) =
     (case llm e messages of
        None \<Rightarrow> False
      | Some r \<Rightarrow>
          finish_reason r = ''tool_calls'' \<and> message r = m \<and> answers_requests m results
          \<and> grown_by_rounds e (messages @ AssistantMessage m # results) rest)"

definition appended :: "(message \<times> turn list) list \<Rightarrow> turn list" where
  "appended rounds = concat (map (\<lambda>(m, results). AssistantMessage m # results) rounds)"

section \<open>Example surroundings\<close>

text \<open>
  Concrete surroundings for running the model: the provider's answers are given, every
  random draw is one half, and the remaining parts are fixed small values.
\<close>

definition example_tables :: constants where
  "example_tables =
     \<lparr>PLATFORM_SLUG_TO_ID = [(''pc'', 4), (''playstation5'', 187)],
      PARENT_PLATFORM_SLUG_TO_ID = [(''pc'', 1), (''playstation'', 2)],
      STORE_SLUG_TO_ID = [(''steam'', 1)],
      DEVELOPER_SLUGS = [''valve-software''],
      PUBLISHER_SLUGS = [''nintendo''],
      GENRE_SLUGS = [''action''],
      TAG_SLUGS = [''singleplayer''],
      ORDERINGS = [''name'', ''-metacritic'']\<rparr>"

definition example_env :: "(nat \<Rightarrow> http_outcome) \<Rightarrow> (turn list \<Rightarrow> response option) \<Rightarrow> env" where
  \<open>example_env outs model =
     \<lparr>outcomes = outs, random = (\<lambda>i. 1 / 2), rawg_api_key = Some ''k'',
      today = ''2025-01-01'', tables = example_tables,
      loads = (\<lambda>s. if s = ''{}'' then Some (JObj [])
                    else if s = ''{"game_name": "Portal 2"}''
                    then Some (JObj [(''game_name'', JStr ''Portal 2'')])
                    else None),
      dumps = (\<lambda>j. if j = JObj [] then ''{}'' else ''{...}''),
      exc_text = (\<lambda>x. ''error''),
      SYSTEM_PROMPT = ''# Role'',
      llm = model\<rparr>\<close>

text \<open>A model that asks once for the tool \<open>tool\<close> with the given arguments, on a
  conversation of two entries, and then answers.\<close>

definition example_model :: "string \<Rightarrow> string \<Rightarrow> turn list \<Rightarrow> response option" where
  "example_model tool arguments messages =
     (if length messages = 2
      then Some \<lparr>finish_reason = ''tool_calls'',
                 message = \<lparr>content = None,
                   tool_calls = Some [\<lparr>tc_id = ''call_1'', fn_name = tool,
                                        fn_arguments = arguments\<rparr>]\<rparr>\<rparr>
      else Some \<lparr>finish_reason = ''stop'',
                 message = \<lparr>content = Some ''Done.'', tool_calls = None\<rparr>\<rparr>)"






definition example_four_matches :: env where
  "example_four_matches =
     example_env (\<lambda>i. Response (JObj [(''count'', JInt 4),
        (''results'', JArr [JObj [(''id'', JInt 1)], JObj [(''id'', JInt 2)],
                            JObj [(''id'', JInt 3)], JObj [(''id'', JInt 4)]])]))
       (\<lambda>c. None)"

definition example_asking :: "string \<Rightarrow> string \<Rightarrow> env" where
  "example_asking tool arguments =
     example_env (\<lambda>i. RequestException ''refused'') (example_model tool arguments)"



section \<open>Properties of the catalogue client\<close>




















section \<open>Properties of the tool handlers\<close>



lemma database_error_text:
  "database_error [(''success'', JBool False), (''error'', JStr m)] dflt =
     Inr (JObj [(''success'', JBool False),
                (''failure_reason'', JStr (''Database error: '' @ m))])"
  by (simp add: database_error_def dict_get_def)

lemma database_error_default:
  "map_of db ''error'' = None \<Longrightarrow> database_error db dflt =
     Inr (JObj [(''success'', JBool False),
                (''failure_reason'', JStr (''Database error: '' @ dflt))])"
  by (simp add: database_error_def dict_get_def)


















lemma database_error_failure:
  "database_error db dflt = Inr v \<Longrightarrow> dict_get r ''success'' JNull = JBool True \<Longrightarrow> v \<noteq> JObj r"
  by (cases "py_format (dict_get db ''error'' (JStr dflt))")
     (auto simp: database_error_def dict_get_def)

text \<open>
  C10. Whenever \<open>find_game_by_name\<close> returns a success envelope, its \<open>results\<close> are
  the dumps of the first three game objects parsed from the provider's matches: at most
  three records, however many matches there were.
\<close>

theorem find_game_by_name_at_most_three:
  assumes "find_game_by_name e game_name w = Inr (JObj r, w')"
    and "dict_get r ''success'' JNull = JBool True"
  shows "\<exists>rawg_payload game_objects.
           py_get (dict_get (fst (search_game_by_name e game_name w)) ''results'' (JObj []))
             ''results'' JNull = Inr rawg_payload
         \<and> create_game_objects_from_search_results rawg_payload = Inr game_objects
         \<and> dict_get r ''results'' JNull = JArr (map model_dump (take 3 game_objects))
         \<and> length (map model_dump (take 3 game_objects)) \<le> 3"
proof -
  let ?db = "fst (search_game_by_name e game_name w)"
  let ?w = "snd (search_game_by_name e game_name w)"
  let ?get = "py_get (dict_get ?db ''results'' (JObj [])) ''results'' JNull"
  let ?dflt = "''An unknown error occurred while fetching from the database.''"
  have eq: "find_game_by_name e game_name w =
     bind_err ?get (\<lambda>rawg_payload.
           if \<not> truthy (dict_get ?db ''success'' JNull) \<or> \<not> truthy rawg_payload
           then bind_err (database_error ?db ?dflt) (\<lambda>r. Inr (r, ?w))
           else bind_err (create_game_objects_from_search_results rawg_payload)
                  (\<lambda>game_objects.
                    if game_objects = []
                    then Inr (JObj [(''success'', JBool False),
                                    (''failure_reason'',
                                     JStr ''Failed to parse database results.'')], ?w)
                    else Inr (JObj [(''success'', JBool True),
                                    (''results'',
                                     JArr (map model_dump (take 3 game_objects)))], ?w)))"
    by (simp add: find_game_by_name_def split_beta)
  obtain payload where p: "?get = Inr payload"
    using assms(1) unfolding eq by (cases ?get) simp_all
  show ?thesis
  proof (cases "\<not> truthy (dict_get ?db ''success'' JNull) \<or> \<not> truthy payload")
    case True
    then have b: "bind_err (database_error ?db ?dflt) (\<lambda>r. Inr (r, ?w)) = Inr (JObj r, w')"
      using assms(1) unfolding eq p by simp
    then obtain v where v: "database_error ?db ?dflt = Inr v"
      by (cases "database_error ?db ?dflt") simp_all
    then have "v = JObj r" using b by simp
    then show ?thesis using database_error_failure [OF v assms(2)] by simp
  next
    case False
    then have b: "bind_err (create_game_objects_from_search_results payload)
                  (\<lambda>game_objects.
                    if game_objects = []
                    then Inr (JObj [(''success'', JBool False),
                                    (''failure_reason'',
                                     JStr ''Failed to parse database results.'')], ?w)
                    else Inr (JObj [(''success'', JBool True),
                                    (''results'',
                                     JArr (map model_dump (take 3 game_objects)))], ?w))
              = Inr (JObj r, w')"
      using assms(1) unfolding eq p by simp
    then obtain gs where gs: "create_game_objects_from_search_results payload = Inr gs"
      by (cases "create_game_objects_from_search_results payload") simp_all
    have "gs \<noteq> []"
      using b assms(2) unfolding gs by (auto simp: dict_get_def)
    then have "r = [(''success'', JBool True),
                    (''results'', JArr (map model_dump (take 3 gs)))]"
      using b unfolding gs by simp
    then have "dict_get r ''results'' JNull = JArr (map model_dump (take 3 gs))"
      by (simp add: dict_get_def)
    then show ?thesis using p gs by auto
  qed
qed

lemma example_four_matches:
  "find_game_by_name example_four_matches (JStr ''Portal'') [] =
     Inr (JObj [(''success'', JBool True),
             (''results'', JArr (map model_dump [\<lparr>name = [], game_id = 1, average_playtime = 0, platforms = [], stores = [], genres = [], released = [], metacritic_score = None, esrb_rating = None\<rparr>,
                \<lparr>name = [], game_id = 2, average_playtime = 0, platforms = [], stores = [], genres = [], released = [], metacritic_score = None, esrb_rating = None\<rparr>,
                \<lparr>name = [], game_id = 3, average_playtime = 0, platforms = [], stores = [], genres = [], released = [], metacritic_score = None, esrb_rating = None\<rparr>]))],
          [Get \<lparr>url = RAWG_GAMES_API_BASE_URL,
                 params = [key_param example_four_matches, (''search'', JStr ''Portal''),
                           (''exclude_additions'', JBool True)]\<rparr>])"
  by (simp add: find_game_by_name_def search_game_by_name_def make_request_def
      make_request_with_retry_def upt_conv_Cons example_env_def example_four_matches_def dict_get_def
      create_game_objects_from_search_results_def create_game_object_def py_or_def)

theorem find_game_by_name_at_most_three_witness:
  "find_game_by_name example_four_matches (JStr ''Portal'') [] =
     Inr (JObj [(''success'', JBool True),
             (''results'', JArr (map model_dump [\<lparr>name = [], game_id = 1, average_playtime = 0, platforms = [], stores = [], genres = [], released = [], metacritic_score = None, esrb_rating = None\<rparr>,
                \<lparr>name = [], game_id = 2, average_playtime = 0, platforms = [], stores = [], genres = [], released = [], metacritic_score = None, esrb_rating = None\<rparr>,
                \<lparr>name = [], game_id = 3, average_playtime = 0, platforms = [], stores = [], genres = [], released = [], metacritic_score = None, esrb_rating = None\<rparr>]))],
          [Get \<lparr>url = RAWG_GAMES_API_BASE_URL,
                 params = [key_param example_four_matches, (''search'', JStr ''Portal''),
                           (''exclude_additions'', JBool True)]\<rparr>])
   \<and> dict_get [(''success'', JBool True),
             (''results'', JArr (map model_dump [\<lparr>name = [], game_id = 1, average_playtime = 0, platforms = [], stores = [], genres = [], released = [], metacritic_score = None, esrb_rating = None\<rparr>,
                \<lparr>name = [], game_id = 2, average_playtime = 0, platforms = [], stores = [], genres = [], released = [], metacritic_score = None, esrb_rating = None\<rparr>,
                \<lparr>name = [], game_id = 3, average_playtime = 0, platforms = [], stores = [], genres = [], released = [], metacritic_score = None, esrb_rating = None\<rparr>]))] ''success'' JNull = JBool True
   \<and> (\<exists>rawg_payload game_objects.
           py_get (dict_get (fst (search_game_by_name example_four_matches (JStr ''Portal'') [])) ''results'' (JObj []))
             ''results'' JNull = Inr rawg_payload
         \<and> create_game_objects_from_search_results rawg_payload = Inr game_objects
         \<and> dict_get [(''success'', JBool True),
             (''results'', JArr (map model_dump [\<lparr>name = [], game_id = 1, average_playtime = 0, platforms = [], stores = [], genres = [], released = [], metacritic_score = None, esrb_rating = None\<rparr>,
                \<lparr>name = [], game_id = 2, average_playtime = 0, platforms = [], stores = [], genres = [], released = [], metacritic_score = None, esrb_rating = None\<rparr>,
                \<lparr>name = [], game_id = 3, average_playtime = 0, platforms = [], stores = [], genres = [], released = [], metacritic_score = None, esrb_rating = None\<rparr>]))] ''results'' JNull = JArr (map model_dump (take 3 game_objects))
         \<and> length (map model_dump (take 3 game_objects)) \<le> 3)"
proof -
  have s: "dict_get [(''success'', JBool True),
             (''results'', JArr (map model_dump [\<lparr>name = [], game_id = 1, average_playtime = 0, platforms = [], stores = [], genres = [], released = [], metacritic_score = None, esrb_rating = None\<rparr>,
                \<lparr>name = [], game_id = 2, average_playtime = 0, platforms = [], stores = [], genres = [], released = [], metacritic_score = None, esrb_rating = None\<rparr>,
                \<lparr>name = [], game_id = 3, average_playtime = 0, platforms = [], stores = [], genres = [], released = [], metacritic_score = None, esrb_rating = None\<rparr>]))] ''success'' JNull = JBool True"
    by (simp add: dict_get_def)
  show ?thesis
    using example_four_matches s
      find_game_by_name_at_most_three [OF example_four_matches s]
    by blast
qed

section \<open>Properties of the lookup normalizer\<close>

text \<open>
  C9 does not hold of the code. A record whose \<open>platforms\<close> list has an entry with a
  null wrapper, \<open>{"platform": null}\<close>, makes the normalizer raise \<open>AttributeError\<close>:
  \<open>platform_entry.get("platform", {})\<close> defaults only a missing key, so \<open>.get("name")\<close>
  is called on \<open>None\<close>. A null \<open>platforms\<close> field itself is defaulted by \<open>or []\<close>.
\<close>

theorem nested_null_wrapper_raises:
  "create_game_objects_from_search_results
     (JArr [JObj [(''id'', JInt 4200), (''name'', JStr ''Portal 2''),
                  (''platforms'', JArr [JObj [(''platform'', JNull)]])]])
     = Inl AttributeError
   \<and> create_game_objects_from_search_results
     (JArr [JObj [(''id'', JInt 4200), (''name'', JStr ''Portal 2''),
                  (''platforms'', JNull)]])
     = Inr [\<lparr>name = ''Portal 2'', game_id = 4200, average_playtime = 0, platforms = [],
            stores = [], genres = [], released = [], metacritic_score = None,
            esrb_rating = None\<rparr>]"
  by (simp add: create_game_objects_from_search_results_def create_game_object_def
      dict_get_def py_or_def)

section \<open>Properties of dispatch and of the orchestration loop\<close>

lemma unbound_tool_name_neutral:
  assumes "app_globals e (fn_name tc) = None" and "loads e (fn_arguments tc) = Some arguments"
  shows "handle_tool_calls e (Some [tc]) w = Inr ([ToolDict (dumps e (JObj [])) (tc_id tc)], w)"
  using assms by simp

text \<open>
  C7 does not hold of the code. The handler is looked up in \<open>globals()\<close>, so a tool name
  that is no tool but is bound in the module, such as \<open>json\<close>, is found, is truthy and is
  called: \<open>TypeError\<close>, which nothing catches, ends the whole turn. Only a name that is
  not bound at all gets the empty envelope (lemma \<open>unbound_tool_name_neutral\<close>).
\<close>

theorem module_name_as_tool_raises:
  "app_globals (example_asking ''json'' ''{}'') ''json''
     = Some (Object True)
   \<and> handle_tool_calls (example_asking ''json'' ''{}'')
       (Some [\<lparr>tc_id = ''call_1'', fn_name = ''json'', fn_arguments = ''{}''\<rparr>]) []
     = Inl TypeError
   \<and> chat (example_asking ''json'' ''{}'')
        3 ''What day is it?'' [] []
     = Some (Inl TypeError)"
  by (simp add: chat_def example_env_def example_asking_def example_model_def numeral_3_eq_3 app_globals_def)




lemma handle_calls_ids:
  "handle_calls e tcs w = Inr (results, w') \<Longrightarrow>
     map tool_call_id results = map (\<lambda>tc. Some (tc_id tc)) tcs"
proof (induction tcs arbitrary: w results w')
  case Nil
  then show ?case by simp
next
  case (Cons tc tcs)
  then show ?case
    by (auto split: option.splits sum.splits prod.splits)
qed

lemma handle_tool_calls_answers:
  "handle_tool_calls e (tool_calls m) w = Inr (results, w') \<Longrightarrow> answers_requests m results"
  by (cases "tool_calls m") (auto simp: answers_requests_def dest: handle_calls_ids)

lemma appended_Cons: "appended ((m, results) # rounds) = AssistantMessage m # results @ appended rounds"
  by (simp add: appended_def)

lemma chat_loop_rounds:
  "chat_loop e fuel messages w = Some (Inr (answer, messages', w')) \<Longrightarrow>
     \<exists>rounds response.
        grown_by_rounds e messages rounds
      \<and> messages' = messages @ appended rounds
      \<and> llm e messages' = Some response
      \<and> finish_reason response \<noteq> ''tool_calls''
      \<and> answer = content (message response)"
proof (induction fuel arbitrary: messages w)
  case 0
  then show ?case by simp
next
  case (Suc fuel)
  then obtain r where r: "llm e messages = Some r"
    by (cases "llm e messages") simp_all
  show ?case
  proof (cases "finish_reason r = ''tool_calls''")
    case True
    then obtain results w1 where
      h: "handle_tool_calls e (tool_calls (message r)) w = Inr (results, w1)"
      using Suc.prems r
      by (cases "handle_tool_calls e (tool_calls (message r)) w") auto
    then have "chat_loop e fuel (messages @ [AssistantMessage (message r)] @ results) w1 =
                 Some (Inr (answer, messages', w'))"
      using Suc.prems r True by simp
    from Suc.IH [OF this] obtain rounds response where
      ih: "grown_by_rounds e (messages @ [AssistantMessage (message r)] @ results) rounds"
        "messages' = (messages @ [AssistantMessage (message r)] @ results) @ appended rounds"
        "llm e messages' = Some response" "finish_reason response \<noteq> ''tool_calls''"
        "answer = content (message response)"
      by blast
    have "grown_by_rounds e messages ((message r, results) # rounds)"
      using r True ih(1) handle_tool_calls_answers [OF h] by simp
    moreover have "messages' = messages @ appended ((message r, results) # rounds)"
      using ih(2) by (simp add: appended_Cons)
    ultimately show ?thesis using ih(3-5) by blast
  next
    case False
    then have "messages' = messages" "answer = content (message r)"
      using Suc.prems r by simp_all
    then have "grown_by_rounds e messages [] \<and> messages' = messages @ appended []
        \<and> llm e messages' = Some r \<and> finish_reason r \<noteq> ''tool_calls''
        \<and> answer = content (message r)"
      using r False by (simp add: appended_def)
    then show ?thesis by blast
  qed
qed

text \<open>
  C4. When \<open>chat\<close> returns, the conversation is the initial one (system prompt, history,
  user message) followed by complete tool rounds and nothing else: in each round the
  model answered the conversation as it stood with finish reason \<open>tool_calls\<close>, its
  message was appended, and after it one tool result per requested call, in request
  order and tagged with the request's id. The text returned is the content of the
  model's answer to the final conversation, whose finish reason is not \<open>tool_calls\<close>.
\<close>

theorem chat_appends_tool_rounds:
  assumes "chat e fuel msg history w = Some (Inr (answer, messages', w'))"
  shows "\<exists>rounds response.
        grown_by_rounds e
          ([Dict ''system'' (SYSTEM_PROMPT e)] @ history @
           [Dict ''user'' (msg @ [CHR 0x0A, CHR 0x0A] @ persona_reminder)]) rounds
      \<and> messages' =
          ([Dict ''system'' (SYSTEM_PROMPT e)] @ history @
           [Dict ''user'' (msg @ [CHR 0x0A, CHR 0x0A] @ persona_reminder)]) @ appended rounds
      \<and> llm e messages' = Some response
      \<and> finish_reason response \<noteq> ''tool_calls''
      \<and> answer = content (message response)"
  using assms unfolding chat_def by (rule chat_loop_rounds)

lemma example_chat_run:
  "chat (example_asking ''get_current_date'' ''{}'')
        3 ''What day is it?'' [] [] =
     Some (Inr (Some ''Done.'',
       [Dict ''system'' ''# Role'',
        Dict ''user'' (''What day is it?'' @ [CHR 0x0A, CHR 0x0A] @ persona_reminder),
        AssistantMessage \<lparr>content = None,
           tool_calls = Some [\<lparr>tc_id = ''call_1'', fn_name = ''get_current_date'',
                                fn_arguments = ''{}''\<rparr>]\<rparr>,
        ToolDict ''{...}'' ''call_1''], []))"
  by (simp add: chat_def example_env_def example_asking_def example_model_def numeral_3_eq_3 app_globals_def
      get_current_date_def)

theorem chat_appends_tool_rounds_witness:
  "chat (example_asking ''get_current_date'' ''{}'')
        3 ''What day is it?'' [] [] =
     Some (Inr (Some ''Done.'',
       [Dict ''system'' ''# Role'',
        Dict ''user'' (''What day is it?'' @ [CHR 0x0A, CHR 0x0A] @ persona_reminder),
        AssistantMessage \<lparr>content = None,
           tool_calls = Some [\<lparr>tc_id = ''call_1'', fn_name = ''get_current_date'',
                                fn_arguments = ''{}''\<rparr>]\<rparr>,
        ToolDict ''{...}'' ''call_1''], []))
   \<and> (\<exists>rounds response.
        grown_by_rounds
          (example_asking ''get_current_date'' ''{}'')
          ([Dict ''system'' (SYSTEM_PROMPT
              (example_asking ''get_current_date'' ''{}''))]
           @ [] @
           [Dict ''user'' (''What day is it?'' @ [CHR 0x0A, CHR 0x0A] @ persona_reminder)]) rounds
      \<and> [Dict ''system'' ''# Role'',
        Dict ''user'' (''What day is it?'' @ [CHR 0x0A, CHR 0x0A] @ persona_reminder),
        AssistantMessage \<lparr>content = None,
           tool_calls = Some [\<lparr>tc_id = ''call_1'', fn_name = ''get_current_date'',
                                fn_arguments = ''{}''\<rparr>]\<rparr>,
        ToolDict ''{...}'' ''call_1''] =
          ([Dict ''system'' (SYSTEM_PROMPT
              (example_asking ''get_current_date'' ''{}''))]
           @ [] @
           [Dict ''user'' (''What day is it?'' @ [CHR 0x0A, CHR 0x0A] @ persona_reminder)])
          @ appended rounds
      \<and> llm (example_asking ''get_current_date'' ''{}'')
          [Dict ''system'' ''# Role'',
        Dict ''user'' (''What day is it?'' @ [CHR 0x0A, CHR 0x0A] @ persona_reminder),
        AssistantMessage \<lparr>content = None,
           tool_calls = Some [\<lparr>tc_id = ''call_1'', fn_name = ''get_current_date'',
                                fn_arguments = ''{}''\<rparr>]\<rparr>,
        ToolDict ''{...}'' ''call_1''] = Some response
      \<and> finish_reason response \<noteq> ''tool_calls''
      \<and> Some ''Done.'' = content (message response))"
  using example_chat_run chat_appends_tool_rounds [OF example_chat_run]
  by blast

end
